theory Spec2Isabelle
  imports Main "HOL-Library.Word"
begin

section \<open>The Asterisk thread storage API\<close>

text \<open>
  A shallow embedding of \<^verbatim>\<open>include/asterisk/threadstorage.h\<close>: the descriptor
  \<^verbatim>\<open>struct ast_threadstorage\<close>, the declaration macros \<^verbatim>\<open>AST_THREADSTORAGE\<close> and
  \<^verbatim>\<open>AST_THREADSTORAGE_CUSTOM\<close> (both builds), the accessor \<^verbatim>\<open>ast_threadstorage_get\<close>
  and its \<^verbatim>\<open>DEBUG_THREADLOCALS\<close> twin \<^verbatim>\<open>__ast_threadstorage_get\<close>, and the generated
  functions \<^verbatim>\<open>__init_<name>\<close> and \<^verbatim>\<open>__cleanup_<name>\<close>.

  The header's code runs in one thread at a time in this model: the calling thread is the
  explicit argument \<open>self\<close>, the state of the process is passed through every call, and
  the answers of the collaborators the header cannot control (whether the allocator has a
  block, whether the thread-local runtime has room) are the argument \<open>ex\<close>.
  C names that start with underscores lose them: \<^verbatim>\<open>__init_<name>\<close> is \<open>init_name\<close>,
  \<^verbatim>\<open>__cleanup_<name>\<close> is \<open>cleanup_name\<close>, \<^verbatim>\<open>__ast_threadstorage_object_add\<close> is
  \<open>ast_threadstorage_object_add\<close>, and \<^verbatim>\<open>__ast_threadstorage_get\<close> is
  \<open>debug_ast_threadstorage_get\<close>.
\<close>

subsection \<open>Pointers, the heap and the debug registry\<close>

text \<open>
  A \<^verbatim>\<open>void *\<close> is the null pointer, the address of a block handed out by the allocator, or
  the address \<^verbatim>\<open>&name.key\<close> of the key field of the static descriptor \<open>name\<close>. Static
  objects and allocated blocks never share an address in C, which the constructors keep
  apart.
\<close>

datatype ptr = NULL | Block nat | Key_of nat

type_synonym byte = "8 word"

text \<open>The heap: the blocks that are allocated and not yet released, with their bytes.\<close>

type_synonym heap = "nat \<rightharpoonup> byte list"

text \<open>
  One entry of the debug registry: the key it is filed under, the size and the call site
  (\<^verbatim>\<open>file\<close>, \<^verbatim>\<open>function\<close>, \<^verbatim>\<open>line\<close>), the arguments of
  \<^verbatim>\<open>__ast_threadstorage_object_add\<close>.
\<close>

record tls_object =
  obj_key :: ptr
  obj_size :: nat
  obj_file :: string
  obj_function :: string
  obj_line :: nat

text \<open>
  The memory that callbacks can reach: the heap, the registry's entries and the number of
  programming errors the registry has reported.
\<close>

record memory =
  heap :: heap
  objects :: "tls_object list"
  faults :: nat

definition on_heap :: "(heap \<Rightarrow> heap) \<Rightarrow> memory \<Rightarrow> memory" where
  "on_heap f m = m\<lparr>heap := f (heap m)\<rparr>"

text \<open>
  The external collaborators' answers. \<open>allocate ex h n\<close> is the block the allocator picks
  for a request of \<open>n\<close> bytes on heap \<open>h\<close>, or \<open>None\<close> when it has none;
  \<open>tls_nomem ex t k\<close> says that the thread-local runtime has no memory left to store a
  value of thread \<open>t\<close> under key \<open>k\<close>.
\<close>

record extern =
  allocate :: "heap \<Rightarrow> nat \<Rightarrow> nat option"
  tls_nomem :: "nat \<Rightarrow> nat \<Rightarrow> bool"

text \<open>
  Modelled from the spec: \<^verbatim>\<open>ast_calloc\<close> of \<^verbatim>\<open>asterisk/utils.h\<close>, which is not under
  \<^verbatim>\<open>src/\<close>. The spec's allocator is \<^verbatim>\<open>allocate(size, zero_initialized) -> Option<Block>\<close>:
  a zero-initialized block of \<open>nmemb * sz\<close> bytes, or no block. The accessor calls it
  with \<open>nmemb = 1\<close>, so the product cannot wrap around \<^verbatim>\<open>size_t\<close>; sizes are naturals.
\<close>

definition ast_calloc :: "extern \<Rightarrow> nat \<Rightarrow> nat \<Rightarrow> heap \<Rightarrow> ptr \<times> heap" where
  "ast_calloc ex nmemb sz h =
     (case allocate ex h (nmemb * sz) of
        None \<Rightarrow> (NULL, h)
      | Some b \<Rightarrow> (Block b, h(b \<mapsto> replicate (nmemb * sz) 0)))"

text \<open>
  \<^verbatim>\<open>free\<close> of the C library: the block leaves the heap; \<^verbatim>\<open>free(NULL)\<close> does nothing. A
  pointer that is no block is undefined behaviour in C; the model leaves the heap as it is.
\<close>

definition free :: "ptr \<Rightarrow> heap \<Rightarrow> heap" where
  "free p h = (case p of Block b \<Rightarrow> h(b := None) | _ \<Rightarrow> h)"

text \<open>
  Modelled from the spec: \<^verbatim>\<open>ast_free_ptr\<close> of \<^verbatim>\<open>asterisk/utils.h\<close>, which is not under
  \<^verbatim>\<open>src/\<close>. The spec's default cleanup is "a plain release" of the block.
\<close>

definition ast_free_ptr :: "ptr \<Rightarrow> heap \<Rightarrow> heap" where
  "ast_free_ptr p h = free p h"

text \<open>
  Modelled from the spec: \<^verbatim>\<open>__ast_threadstorage_object_add\<close>, declared in the header and
  defined in \<^verbatim>\<open>main/threadstorage.c\<close>, which is not under \<^verbatim>\<open>src/\<close>. The spec's
  \<^verbatim>\<open>add(key_identity, size, site)\<close> "inserts a new entry; fails-fast (reports a programming
  error) on duplicate key_identity".
\<close>

definition ast_threadstorage_object_add ::
  "ptr \<Rightarrow> nat \<Rightarrow> string \<Rightarrow> string \<Rightarrow> nat \<Rightarrow> memory \<Rightarrow> memory" where
  "ast_threadstorage_object_add k len file func line m =
     (if k \<in> set (map obj_key (objects m)) then m\<lparr>faults := Suc (faults m)\<rparr>
      else m\<lparr>objects := objects m @
             [\<lparr>obj_key = k, obj_size = len, obj_file = file, obj_function = func,
               obj_line = line\<rparr>]\<rparr>)"

text \<open>
  Modelled from the spec: \<^verbatim>\<open>__ast_threadstorage_object_remove\<close>, declared in the header and
  defined in \<^verbatim>\<open>main/threadstorage.c\<close>, which is not under \<^verbatim>\<open>src/\<close>. The spec's
  \<^verbatim>\<open>remove(key_identity)\<close> "deletes the entry; reports a programming error if absent".
\<close>

definition ast_threadstorage_object_remove :: "ptr \<Rightarrow> memory \<Rightarrow> memory" where
  "ast_threadstorage_object_remove k m =
     (if k \<in> set (map obj_key (objects m))
      then m\<lparr>objects := filter (\<lambda>e. obj_key e \<noteq> k) (objects m)\<rparr>
      else m\<lparr>faults := Suc (faults m)\<rparr>)"

subsection \<open>The thread-local runtime\<close>

text \<open>
  A destructor registered with a key is a C function \<^verbatim>\<open>void (*)(void *)\<close>; it reaches the
  memory above. The runtime holds the keys created so far (key \<open>k\<close> is valid when
  \<open>k < length (destructors r)\<close>, keys are never deleted), the limit
  \<^verbatim>\<open>PTHREAD_KEYS_MAX\<close>, and the value of every thread under every key.
\<close>

type_synonym dtor = "ptr \<Rightarrow> memory \<Rightarrow> memory"

record pthread_rt =
  keys_max :: nat
  destructors :: "dtor list"
  specific :: "nat \<Rightarrow> nat \<Rightarrow> ptr"

text \<open>
  The only functions \<^verbatim>\<open>void (*)(void)\<close> of the header are the \<^verbatim>\<open>__init_<name>\<close> that
  \<^verbatim>\<open>AST_THREADSTORAGE_CUSTOM\<close> generates; a pointer to one names the descriptor and the
  destructor its body passes to \<^verbatim>\<open>pthread_key_create\<close>.
\<close>

datatype init_fn = Init_name nat dtor

subsection \<open>The descriptor\<close>

text \<open>
  \<^verbatim>\<open>struct ast_threadstorage\<close>. \<^verbatim>\<open>pthread_once_t\<close> is a flag (\<open>False\<close> is
  \<^verbatim>\<open>PTHREAD_ONCE_INIT\<close>), \<^verbatim>\<open>pthread_key_t\<close> a natural number, and a null
  \<^verbatim>\<open>custom_init\<close> is \<open>None\<close>. A custom initializer gets the block and returns an
  \<^verbatim>\<open>int\<close>; it can change the heap.
\<close>

record ast_threadstorage =
  once :: bool
  key :: nat
  key_init :: init_fn
  custom_init :: "(ptr \<Rightarrow> heap \<Rightarrow> int \<times> heap) option"

definition THREADSTORAGE_ONCE_INIT :: bool where
  "THREADSTORAGE_ONCE_INIT = False"

text \<open>
  The process: the static descriptors (a descriptor pointer \<^verbatim>\<open>ts\<close> is the descriptor's
  name, a number), the thread-local runtime, and the memory.
\<close>

record world =
  statics :: "nat \<Rightarrow> ast_threadstorage"
  rt :: pthread_rt
  mem :: memory

definition on_mem :: "(memory \<Rightarrow> memory) \<Rightarrow> world \<Rightarrow> world" where
  "on_mem f w = w\<lparr>mem := f (mem w)\<rparr>"

definition EAGAIN :: int where "EAGAIN = 11"
definition ENOMEM :: int where "ENOMEM = 12"
definition EINVAL :: int where "EINVAL = 22"

text \<open>The write \<^verbatim>\<open>*keyp = k\<close> of \<^verbatim>\<open>pthread_key_create\<close>.\<close>

definition store_key :: "ptr \<Rightarrow> nat \<Rightarrow> world \<Rightarrow> world" where
  "store_key keyp k w =
     (case keyp of
        Key_of name \<Rightarrow> w\<lparr>statics := (statics w)(name := (statics w name)\<lparr>key := k\<rparr>)\<rparr>
      | _ \<Rightarrow> w)"

text \<open>
  \<^verbatim>\<open>pthread_key_create(keyp, destructor)\<close> as POSIX has it: a new key, whose value is
  \<^verbatim>\<open>NULL\<close> in every thread, is stored through \<open>keyp\<close> and the call returns 0; when
  \<^verbatim>\<open>PTHREAD_KEYS_MAX\<close> keys exist it returns \<^verbatim>\<open>EAGAIN\<close> and stores nothing.
\<close>

definition pthread_key_create :: "ptr \<Rightarrow> dtor \<Rightarrow> world \<Rightarrow> int \<times> world" where
  "pthread_key_create keyp destructor w =
     (let r = rt w; k = length (destructors r)
      in if keys_max r \<le> k then (EAGAIN, w)
         else (0, store_key keyp k
                    (w\<lparr>rt := r\<lparr>destructors := destructors r @ [destructor],
                               specific := (\<lambda>t. (specific r t)(k := NULL))\<rparr>\<rparr>)))"

text \<open>
  \<^verbatim>\<open>pthread_getspecific(key)\<close> in thread \<open>self\<close>: the thread's value under the key,
  \<^verbatim>\<open>NULL\<close> for a key that was never created.
\<close>

definition pthread_getspecific :: "nat \<Rightarrow> nat \<Rightarrow> pthread_rt \<Rightarrow> ptr" where
  "pthread_getspecific k self r =
     (if k < length (destructors r) then specific r self k else NULL)"

text \<open>
  \<^verbatim>\<open>pthread_setspecific(key, value)\<close> in thread \<open>self\<close>: \<^verbatim>\<open>EINVAL\<close> for a key that was
  never created, \<^verbatim>\<open>ENOMEM\<close> when the runtime has no memory for the association, and
  otherwise the value is stored and the call returns 0.
\<close>

definition pthread_setspecific ::
  "extern \<Rightarrow> nat \<Rightarrow> nat \<Rightarrow> ptr \<Rightarrow> pthread_rt \<Rightarrow> int \<times> pthread_rt" where
  "pthread_setspecific ex self k v r =
     (if \<not> k < length (destructors r) then (EINVAL, r)
      else if tls_nomem ex self k then (ENOMEM, r)
      else (0, r\<lparr>specific := (specific r)(self := (specific r self)(k := v))\<rparr>))"

subsection \<open>The declaration macros\<close>

text \<open>
  \<^verbatim>\<open>__init_<name>\<close>, the body both builds generate:
  \<^verbatim>\<open>pthread_key_create(&(name).key, destructor)\<close>, its result dropped.
\<close>

definition init_name :: "nat \<Rightarrow> dtor \<Rightarrow> world \<Rightarrow> world" where
  "init_name name destructor w = snd (pthread_key_create (Key_of name) destructor w)"

text \<open>Calling a function through a pointer \<^verbatim>\<open>void (*)(void)\<close>.\<close>

fun call_init_fn :: "init_fn \<Rightarrow> world \<Rightarrow> world" where
  "call_init_fn (Init_name name destructor) w = init_name name destructor w"

text \<open>
  \<^verbatim>\<open>__cleanup_<name>\<close> of the \<^verbatim>\<open>DEBUG_THREADLOCALS\<close> build:
  \<^verbatim>\<open>__ast_threadstorage_object_remove(data); c_cleanup(data);\<close>
\<close>

definition cleanup_name :: "(ptr \<Rightarrow> heap \<Rightarrow> heap) \<Rightarrow> ptr \<Rightarrow> memory \<Rightarrow> memory" where
  "cleanup_name c_cleanup data m =
     (let m1 = ast_threadstorage_object_remove data m
      in on_heap (c_cleanup data) m1)"

text \<open>
  \<^verbatim>\<open>AST_THREADSTORAGE_CUSTOM(name, c_init, c_cleanup)\<close> without \<^verbatim>\<open>DEBUG_THREADLOCALS\<close>:
  the static descriptor \<open>name\<close> as it is initialized (the key field, not named by the
  initializer, is zero), with \<^verbatim>\<open>__init_<name>\<close> registering \<open>c_cleanup\<close> itself.
\<close>

definition AST_THREADSTORAGE_CUSTOM ::
  "nat \<Rightarrow> (ptr \<Rightarrow> heap \<Rightarrow> int \<times> heap) option \<Rightarrow> (ptr \<Rightarrow> heap \<Rightarrow> heap) \<Rightarrow> ast_threadstorage" where
  "AST_THREADSTORAGE_CUSTOM name c_init c_cleanup =
     \<lparr>once = THREADSTORAGE_ONCE_INIT, key = 0,
      key_init = Init_name name (\<lambda>data. on_heap (c_cleanup data)),
      custom_init = c_init\<rparr>"

text \<open>The same macro with \<^verbatim>\<open>DEBUG_THREADLOCALS\<close>: \<^verbatim>\<open>__cleanup_<name>\<close> is registered.\<close>

definition debug_AST_THREADSTORAGE_CUSTOM ::
  "nat \<Rightarrow> (ptr \<Rightarrow> heap \<Rightarrow> int \<times> heap) option \<Rightarrow> (ptr \<Rightarrow> heap \<Rightarrow> heap) \<Rightarrow> ast_threadstorage" where
  "debug_AST_THREADSTORAGE_CUSTOM name c_init c_cleanup =
     \<lparr>once = THREADSTORAGE_ONCE_INIT, key = 0,
      key_init = Init_name name (cleanup_name c_cleanup),
      custom_init = c_init\<rparr>"

text \<open>\<^verbatim>\<open>AST_THREADSTORAGE(name)\<close> is \<^verbatim>\<open>AST_THREADSTORAGE_CUSTOM(name, NULL, ast_free_ptr)\<close>.\<close>

definition AST_THREADSTORAGE :: "nat \<Rightarrow> ast_threadstorage" where
  "AST_THREADSTORAGE name = AST_THREADSTORAGE_CUSTOM name None ast_free_ptr"

definition debug_AST_THREADSTORAGE :: "nat \<Rightarrow> ast_threadstorage" where
  "debug_AST_THREADSTORAGE name = debug_AST_THREADSTORAGE_CUSTOM name None ast_free_ptr"

subsection \<open>The accessor\<close>

text \<open>
  \<^verbatim>\<open>pthread_once(&ts->once, init_routine)\<close> seen by one thread at a time: the first call
  runs the routine and sets the flag, every later call does nothing.
\<close>

definition pthread_once :: "nat \<Rightarrow> init_fn \<Rightarrow> world \<Rightarrow> world" where
  "pthread_once ts init_routine w =
     (if once (statics w ts) then w
      else (let w' = call_init_fn init_routine w
            in w'\<lparr>statics := (statics w')(ts := (statics w' ts)\<lparr>once := True\<rparr>)\<rparr>))"

text \<open>
  The condition \<^verbatim>\<open>ts->custom_init && ts->custom_init(buf)\<close>: whether it holds, and the
  world after the call it may make.
\<close>

definition custom_init_fails :: "nat \<Rightarrow> ptr \<Rightarrow> world \<Rightarrow> bool \<times> world" where
  "custom_init_fails ts buf w =
     (case custom_init (statics w ts) of
        None \<Rightarrow> (False, w)
      | Some f \<Rightarrow> (let (r, h) = f buf (heap (mem w))
                  in (r \<noteq> 0, on_mem (on_heap (\<lambda>_. h)) w)))"

text \<open>\<^verbatim>\<open>ast_threadstorage_get(ts, init_size)\<close> without \<^verbatim>\<open>DEBUG_THREADLOCALS\<close>.\<close>

definition ast_threadstorage_get :: "extern \<Rightarrow> nat \<Rightarrow> nat \<Rightarrow> nat \<Rightarrow> world \<Rightarrow> ptr \<times> world" where
  "ast_threadstorage_get ex self ts init_size w0 =
     (let w1 = pthread_once ts (key_init (statics w0 ts)) w0;
          buf = pthread_getspecific (key (statics w1 ts)) self (rt w1)
      in if buf = NULL then
           (let (buf, h) = ast_calloc ex 1 init_size (heap (mem w1));
                w2 = on_mem (on_heap (\<lambda>_. h)) w1
            in if buf = NULL then (NULL, w2)
               else (let (failed, w3) = custom_init_fails ts buf w2
                     in if failed then (NULL, on_mem (on_heap (free buf)) w3)
                        else (let (r, rt') = pthread_setspecific ex self (key (statics w3 ts)) buf (rt w3)
                              in (buf, w3\<lparr>rt := rt'\<rparr>))))
         else (buf, w1))"

text \<open>
  \<^verbatim>\<open>__ast_threadstorage_get(ts, init_size, file, function, line)\<close> of the
  \<^verbatim>\<open>DEBUG_THREADLOCALS\<close> build.
\<close>

definition debug_ast_threadstorage_get ::
  "extern \<Rightarrow> nat \<Rightarrow> nat \<Rightarrow> nat \<Rightarrow> string \<Rightarrow> string \<Rightarrow> nat \<Rightarrow> world \<Rightarrow> ptr \<times> world" where
  "debug_ast_threadstorage_get ex self ts init_size file func line w0 =
     (let w1 = pthread_once ts (key_init (statics w0 ts)) w0;
          buf = pthread_getspecific (key (statics w1 ts)) self (rt w1)
      in if buf = NULL then
           (let (buf, h) = ast_calloc ex 1 init_size (heap (mem w1));
                w2 = on_mem (on_heap (\<lambda>_. h)) w1
            in if buf = NULL then (NULL, w2)
               else (let (failed, w3) = custom_init_fails ts buf w2
                     in if failed then (NULL, on_mem (on_heap (free buf)) w3)
                        else (let (r, rt') = pthread_setspecific ex self (key (statics w3 ts)) buf (rt w3);
                                  w4 = w3\<lparr>rt := rt'\<rparr>
                              in (buf, on_mem (ast_threadstorage_object_add (Key_of ts) init_size
                                                 file func line) w4))))
         else (buf, w1))"

subsection \<open>Thread exit\<close>

text \<open>
  What POSIX does at the exit of thread \<open>self\<close> for one key: when the thread's value under
  the key is not \<^verbatim>\<open>NULL\<close>, the value is set to \<^verbatim>\<open>NULL\<close> and the key's destructor is called
  with the old value.
\<close>

definition run_destructor :: "nat \<Rightarrow> nat \<Rightarrow> world \<Rightarrow> world" where
  "run_destructor self k w =
     (let data = pthread_getspecific k self (rt w)
      in if data = NULL then w
         else on_mem ((destructors (rt w) ! k) data)
                (w\<lparr>rt := (rt w)\<lparr>specific := (specific (rt w))(self := (specific (rt w) self)(k := NULL))\<rparr>\<rparr>))"

subsection \<open>Notions the properties are stated with\<close>

text \<open>
  The first statement of both accessors, \<^verbatim>\<open>pthread_once(&ts->once, ts->key_init)\<close>, on its
  own: the one-time creation of the key.
\<close>

definition ensure_key :: "nat \<Rightarrow> world \<Rightarrow> world" where
  "ensure_key ts w = pthread_once ts (key_init (statics w ts)) w"

text \<open>
  What the thread-local lookup of an accessor call made now by thread \<open>self\<close> on descriptor
  \<open>ts\<close> returns: the second statement of both accessors,
  \<^verbatim>\<open>pthread_getspecific(ts->key)\<close>, evaluated after the first. The slot holds a buffer when
  this is not \<^verbatim>\<open>NULL\<close>, and is empty when it is.
\<close>

definition slot_lookup :: "nat \<Rightarrow> nat \<Rightarrow> world \<Rightarrow> ptr" where
  "slot_lookup self ts w =
     pthread_getspecific (key (statics (ensure_key ts w) ts)) self (rt (ensure_key ts w))"

text \<open>
  A sequence of calls of \<^verbatim>\<open>__ast_threadstorage_get\<close> on one descriptor, each with the
  collaborators' answers, the calling thread, the size and the call site; the results in
  order and the final world.
\<close>

type_synonym call = "extern \<times> nat \<times> nat \<times> string \<times> string \<times> nat"

fun debug_calls :: "nat \<Rightarrow> call list \<Rightarrow> world \<Rightarrow> ptr list \<times> world" where
  "debug_calls ts [] w = ([], w)"
| "debug_calls ts ((ex, self, init_size, file, func, line) # cs) w =
     (let (r, w') = debug_ast_threadstorage_get ex self ts init_size file func line w;
          (rs, w'') = debug_calls ts cs w'
      in (r # rs, w''))"

subsection \<open>Concrete inputs\<close>

text \<open>
  A process in which no key exists and no block is allocated, whose static descriptors are
  \<open>decls\<close>; an allocator that hands out block 7, then block 8, then nothing; one that has
  nothing; a thread-local runtime that is out of memory; and a custom initializer that
  writes one byte and reports failure.
\<close>

definition rt0 :: pthread_rt where
  "rt0 = \<lparr>keys_max = 1024, destructors = [], specific = (\<lambda>t k. NULL)\<rparr>"

definition mem0 :: memory where
  "mem0 = \<lparr>heap = Map.empty, objects = [], faults = 0\<rparr>"

definition boot :: "(nat \<Rightarrow> ast_threadstorage) \<Rightarrow> world" where
  "boot decls = \<lparr>statics = decls, rt = rt0, mem = mem0\<rparr>"

definition ex_ok :: extern where
  "ex_ok = \<lparr>allocate = (\<lambda>h n. if h 7 = None then Some 7 else if h 8 = None then Some 8 else None),
            tls_nomem = (\<lambda>t k. False)\<rparr>"

definition ex_exhausted :: extern where
  "ex_exhausted = \<lparr>allocate = (\<lambda>h n. None), tls_nomem = (\<lambda>t k. False)\<rparr>"

definition ex_tls_nomem :: extern where
  "ex_tls_nomem = \<lparr>allocate = (\<lambda>h n. if h 7 = None then Some 7 else if h 8 = None then Some 8 else None),
                   tls_nomem = (\<lambda>t k. True)\<rparr>"

definition init_reject :: "ptr \<Rightarrow> heap \<Rightarrow> int \<times> heap" where
  "init_reject buf h = (- 1, case buf of Block b \<Rightarrow> h(b \<mapsto> [255]) | _ \<Rightarrow> h)"

text \<open>The world after thread 1 has called the accessor on the plain slot 0 with size 64.\<close>

definition touched :: world where
  "touched = snd (ast_threadstorage_get ex_ok 1 0 64 (boot AST_THREADSTORAGE))"

text \<open>
  Slots declared with a custom initializer that always reports failure, in both builds;
  and the world of the
  \<^verbatim>\<open>DEBUG_THREADLOCALS\<close> build after thread 1 has called the accessor on the plain slot 0
  with size 64 from \<^verbatim>\<open>chan.c\<close>.
\<close>

definition rejecting :: "nat \<Rightarrow> ast_threadstorage" where
  "rejecting name = AST_THREADSTORAGE_CUSTOM name (Some init_reject) ast_free_ptr"

definition debug_rejecting :: "nat \<Rightarrow> ast_threadstorage" where
  "debug_rejecting name = debug_AST_THREADSTORAGE_CUSTOM name (Some init_reject) ast_free_ptr"

definition debug_touched :: world where
  "debug_touched =
     snd (debug_ast_threadstorage_get ex_ok 1 0 64 ''chan.c'' ''send'' 10
            (boot debug_AST_THREADSTORAGE))"

section \<open>Properties\<close>

subsection \<open>Auxiliary facts\<close>

lemmas model_defs =
  ast_threadstorage_get_def debug_ast_threadstorage_get_def pthread_once_def
  pthread_getspecific_def pthread_setspecific_def pthread_key_create_def store_key_def
  init_name_def custom_init_fails_def ast_calloc_def free_def ast_free_ptr_def on_mem_def
  on_heap_def AST_THREADSTORAGE_def AST_THREADSTORAGE_CUSTOM_def
  debug_AST_THREADSTORAGE_def debug_AST_THREADSTORAGE_CUSTOM_def THREADSTORAGE_ONCE_INIT_def
  ensure_key_def slot_lookup_def cleanup_name_def ast_threadstorage_object_add_def
  ast_threadstorage_object_remove_def run_destructor_def
  rt0_def mem0_def boot_def ex_ok_def ex_exhausted_def ex_tls_nomem_def init_reject_def
  rejecting_def debug_rejecting_def
  EAGAIN_def ENOMEM_def EINVAL_def

lemma mem_store_key: "mem (store_key p k w) = mem w"
  by (simp add: store_key_def split: ptr.splits)

lemma rt_store_key: "rt (store_key p k w) = rt w"
  by (simp add: store_key_def split: ptr.splits)

lemma custom_init_store_key: "custom_init (statics (store_key p k w) n) = custom_init (statics w n)"
  by (simp add: store_key_def split: ptr.splits)

lemma mem_call_init_fn: "mem (call_init_fn f w) = mem w"
  by (cases f) (simp add: init_name_def pthread_key_create_def Let_def mem_store_key)

lemma custom_init_call_init_fn:
  "custom_init (statics (call_init_fn f w) n) = custom_init (statics w n)"
  by (cases f) (simp add: init_name_def pthread_key_create_def Let_def custom_init_store_key)

lemma mem_ensure_key: "mem (ensure_key ts w) = mem w"
  by (simp add: ensure_key_def pthread_once_def Let_def mem_call_init_fn)

lemma custom_init_ensure_key:
  "custom_init (statics (ensure_key ts w) n) = custom_init (statics w n)"
  by (simp add: ensure_key_def pthread_once_def Let_def custom_init_call_init_fn)

text \<open>After the one-time creation the flag is set, so a second \<^verbatim>\<open>pthread_once\<close> does nothing.\<close>

lemma once_ensure_key: "once (statics (ensure_key ts w) ts)"
  by (simp add: ensure_key_def pthread_once_def Let_def)

lemma ensure_key_done: "once (statics w ts) \<Longrightarrow> ensure_key ts w = w"
  by (simp add: ensure_key_def pthread_once_def)

lemma ensure_key_idem: "ensure_key ts (ensure_key ts w) = ensure_key ts w"
  by (rule ensure_key_done [OF once_ensure_key])

lemma slot_lookup_ensure_key: "slot_lookup self ts (ensure_key ts w) = slot_lookup self ts w"
  by (simp add: slot_lookup_def ensure_key_idem)

text \<open>Creating a key changes no lookup: the new key was invalid before and holds \<^verbatim>\<open>NULL\<close> after.\<close>

lemma getspecific_call_init_fn:
  "pthread_getspecific k t (rt (call_init_fn f w)) = pthread_getspecific k t (rt w)"
  by (cases f)
    (auto simp: init_name_def pthread_key_create_def Let_def rt_store_key pthread_getspecific_def
      nth_append)

lemma getspecific_ensure_key:
  "pthread_getspecific k t (rt (ensure_key ts w)) = pthread_getspecific k t (rt w)"
  by (simp add: ensure_key_def pthread_once_def Let_def getspecific_call_init_fn)

text \<open>The lookup reads the descriptors and the runtime only.\<close>

lemma slot_lookup_cong:
  assumes s: "statics w' = statics w" and r: "rt w' = rt w"
  shows "slot_lookup self ts w' = slot_lookup self ts w"
proof -
  have "statics (call_init_fn f w') = statics (call_init_fn f w)
      \<and> rt (call_init_fn f w') = rt (call_init_fn f w)" for f
    using s r
    by (cases f)
      (simp add: init_name_def pthread_key_create_def Let_def store_key_def split: ptr.splits)
  then show ?thesis
    using s r by (simp add: slot_lookup_def ensure_key_def pthread_once_def Let_def)
qed

lemma slot_lookup_on_mem: "slot_lookup self ts (on_mem g w) = slot_lookup self ts w"
  by (rule slot_lookup_cong) (simp_all add: on_mem_def)

text \<open>The two accessors, by the outcome of the lookup and of the allocation.\<close>

lemma get_unfold:
  "ast_threadstorage_get ex self ts init_size w =
     (if slot_lookup self ts w = NULL then
        (case allocate ex (heap (mem w)) init_size of
           None \<Rightarrow> (NULL, ensure_key ts w)
         | Some b \<Rightarrow>
            (let w2 = on_mem (on_heap (\<lambda>_. (heap (mem w))(b \<mapsto> replicate init_size 0)))
                        (ensure_key ts w);
                 (failed, w3) = custom_init_fails ts (Block b) w2
             in if failed then (NULL, on_mem (on_heap (free (Block b))) w3)
                else (Block b,
                      w3\<lparr>rt := snd (pthread_setspecific ex self (key (statics w3 ts)) (Block b)
                                     (rt w3))\<rparr>)))
      else (slot_lookup self ts w, ensure_key ts w))"
  by (simp add: ast_threadstorage_get_def slot_lookup_def ensure_key_def [symmetric] Let_def
      ast_calloc_def mem_ensure_key on_mem_def on_heap_def split: option.splits prod.splits)

lemma debug_get_unfold:
  "debug_ast_threadstorage_get ex self ts init_size file func line w =
     (if slot_lookup self ts w = NULL then
        (case allocate ex (heap (mem w)) init_size of
           None \<Rightarrow> (NULL, ensure_key ts w)
         | Some b \<Rightarrow>
            (let w2 = on_mem (on_heap (\<lambda>_. (heap (mem w))(b \<mapsto> replicate init_size 0)))
                        (ensure_key ts w);
                 (failed, w3) = custom_init_fails ts (Block b) w2
             in if failed then (NULL, on_mem (on_heap (free (Block b))) w3)
                else (Block b,
                      on_mem (ast_threadstorage_object_add (Key_of ts) init_size file func line)
                        (w3\<lparr>rt := snd (pthread_setspecific ex self (key (statics w3 ts)) (Block b)
                                       (rt w3))\<rparr>))))
      else (slot_lookup self ts w, ensure_key ts w))"
  by (simp add: debug_ast_threadstorage_get_def slot_lookup_def ensure_key_def [symmetric] Let_def
      ast_calloc_def mem_ensure_key on_mem_def on_heap_def split: option.splits prod.splits)

text \<open>The first touch when the custom initializer rejects the block, and the result of any miss.\<close>

lemma get_init_failure_unfold:
  assumes "slot_lookup self ts w = NULL"
    and "allocate ex (heap (mem w)) init_size = Some b"
    and "custom_init (statics w ts) = Some f"
    and "fst (f (Block b) ((heap (mem w))(b \<mapsto> replicate init_size 0))) \<noteq> 0"
  shows "ast_threadstorage_get ex self ts init_size w =
           (NULL, on_mem (on_heap (\<lambda>_. (snd (f (Block b) ((heap (mem w))(b \<mapsto> replicate init_size 0))))
                                         (b := None)))
                    (ensure_key ts w))"
  using assms
  by (simp add: get_unfold custom_init_fails_def custom_init_ensure_key mem_ensure_key
      on_mem_def on_heap_def Let_def free_def case_prod_beta)

lemma get_miss_result:
  assumes "slot_lookup self ts w = NULL"
    and "custom_init (statics w ts) = Some f"
  shows "fst (ast_threadstorage_get ex self ts init_size w) =
           (case allocate ex (heap (mem w)) init_size of
              None \<Rightarrow> NULL
            | Some b \<Rightarrow>
                if fst (f (Block b) ((heap (mem w))(b \<mapsto> replicate init_size 0))) \<noteq> 0
                then NULL else Block b)"
  using assms
  by (simp add: get_unfold custom_init_fails_def custom_init_ensure_key mem_ensure_key
      on_mem_def on_heap_def Let_def case_prod_beta split: option.splits)

text \<open>
  The first touch when the allocator hands out block \<open>b\<close>, in both builds: the custom
  initializer, if there is one, runs on the heap in which \<open>b\<close> holds \<open>init_size\<close> zero
  bytes.
\<close>

lemma get_miss_alloc_unfold:
  assumes miss: "slot_lookup self ts w = NULL"
    and alloc: "allocate ex (heap (mem w)) init_size = Some b"
  shows "ast_threadstorage_get ex self ts init_size w =
     (let hz = (heap (mem w))(b \<mapsto> replicate init_size 0);
          w1 = ensure_key ts w
      in case custom_init (statics w ts) of
           None \<Rightarrow>
             (Block b, (on_mem (on_heap (\<lambda>_. hz)) w1)
                \<lparr>rt := snd (pthread_setspecific ex self (key (statics w1 ts)) (Block b) (rt w1))\<rparr>)
         | Some f \<Rightarrow>
             if fst (f (Block b) hz) \<noteq> 0
             then (NULL, on_mem (on_heap (\<lambda>_. (snd (f (Block b) hz))(b := None))) w1)
             else (Block b, (on_mem (on_heap (\<lambda>_. snd (f (Block b) hz))) w1)
                \<lparr>rt := snd (pthread_setspecific ex self (key (statics w1 ts)) (Block b) (rt w1))\<rparr>))"
  using assms
  by (simp add: get_unfold custom_init_fails_def custom_init_ensure_key mem_ensure_key
      on_mem_def on_heap_def Let_def free_def case_prod_beta split: option.splits)

lemma debug_get_miss_alloc_unfold:
  assumes miss: "slot_lookup self ts w = NULL"
    and alloc: "allocate ex (heap (mem w)) init_size = Some b"
  shows "debug_ast_threadstorage_get ex self ts init_size file func line w =
     (let hz = (heap (mem w))(b \<mapsto> replicate init_size 0);
          w1 = ensure_key ts w
      in case custom_init (statics w ts) of
           None \<Rightarrow>
             (Block b, on_mem (ast_threadstorage_object_add (Key_of ts) init_size file func line)
                ((on_mem (on_heap (\<lambda>_. hz)) w1)
                   \<lparr>rt := snd (pthread_setspecific ex self (key (statics w1 ts)) (Block b) (rt w1))\<rparr>))
         | Some f \<Rightarrow>
             if fst (f (Block b) hz) \<noteq> 0
             then (NULL, on_mem (on_heap (\<lambda>_. (snd (f (Block b) hz))(b := None))) w1)
             else (Block b, on_mem (ast_threadstorage_object_add (Key_of ts) init_size file func line)
                ((on_mem (on_heap (\<lambda>_. snd (f (Block b) hz))) w1)
                   \<lparr>rt := snd (pthread_setspecific ex self (key (statics w1 ts)) (Block b) (rt w1))\<rparr>)))"
  using assms
  by (simp add: debug_get_unfold custom_init_fails_def custom_init_ensure_key mem_ensure_key
      on_mem_def on_heap_def Let_def free_def case_prod_beta split: option.splits)

lemma heap_object_add: "heap (ast_threadstorage_object_add k n fi fu li m) = heap m"
  by (simp add: ast_threadstorage_object_add_def)

lemma get_miss_alloc_heap:
  assumes miss: "slot_lookup self ts w = NULL"
    and alloc: "allocate ex (heap (mem w)) init_size = Some b"
  shows "(case custom_init (statics w ts) of
            None \<Rightarrow>
              fst (ast_threadstorage_get ex self ts init_size w) = Block b
              \<and> heap (mem (snd (ast_threadstorage_get ex self ts init_size w)))
                  = (heap (mem w))(b \<mapsto> replicate init_size 0)
              \<and> fst (debug_ast_threadstorage_get ex self ts init_size file func line w) = Block b
              \<and> heap (mem (snd (debug_ast_threadstorage_get ex self ts init_size file func line w)))
                  = (heap (mem w))(b \<mapsto> replicate init_size 0)
          | Some f \<Rightarrow>
              fst (ast_threadstorage_get ex self ts init_size w)
                = (if fst (f (Block b) ((heap (mem w))(b \<mapsto> replicate init_size 0))) \<noteq> 0
                   then NULL else Block b)
              \<and> heap (mem (snd (ast_threadstorage_get ex self ts init_size w)))
                  = (if fst (f (Block b) ((heap (mem w))(b \<mapsto> replicate init_size 0))) \<noteq> 0
                     then (snd (f (Block b) ((heap (mem w))(b \<mapsto> replicate init_size 0))))(b := None)
                     else snd (f (Block b) ((heap (mem w))(b \<mapsto> replicate init_size 0))))
              \<and> fst (debug_ast_threadstorage_get ex self ts init_size file func line w)
                = (if fst (f (Block b) ((heap (mem w))(b \<mapsto> replicate init_size 0))) \<noteq> 0
                   then NULL else Block b)
              \<and> heap (mem (snd (debug_ast_threadstorage_get ex self ts init_size file func line w)))
                  = (if fst (f (Block b) ((heap (mem w))(b \<mapsto> replicate init_size 0))) \<noteq> 0
                     then (snd (f (Block b) ((heap (mem w))(b \<mapsto> replicate init_size 0))))(b := None)
                     else snd (f (Block b) ((heap (mem w))(b \<mapsto> replicate init_size 0)))))"
  by (simp add: get_miss_alloc_unfold [OF miss alloc] debug_get_miss_alloc_unfold [OF miss alloc]
      Let_def on_mem_def on_heap_def heap_object_add split: option.splits)

text \<open>What \<^verbatim>\<open>pthread_setspecific\<close> leaves when it fails and when it succeeds.\<close>

lemma setspecific_failed:
  "fst (pthread_setspecific ex self k v r) \<noteq> 0 \<Longrightarrow> snd (pthread_setspecific ex self k v r) = r"
  by (simp add: pthread_setspecific_def split: if_splits)

lemma setspecific_ok_lookup:
  "fst (pthread_setspecific ex self k v r) = 0 \<Longrightarrow>
     pthread_getspecific k self (snd (pthread_setspecific ex self k v r)) = v"
  by (simp add: pthread_setspecific_def pthread_getspecific_def EINVAL_def ENOMEM_def
      split: if_splits)

lemma registered_lookup:
  assumes ok: "fst (pthread_setspecific ex self (key (statics (ensure_key ts w) ts)) v
                 (rt (ensure_key ts w))) = 0"
  shows "slot_lookup self ts
           ((on_mem g (ensure_key ts w))
              \<lparr>rt := snd (pthread_setspecific ex self (key (statics (ensure_key ts w) ts)) v
                             (rt (ensure_key ts w)))\<rparr>) = v"
proof -
  let ?w2 = "(on_mem g (ensure_key ts w))
              \<lparr>rt := snd (pthread_setspecific ex self (key (statics (ensure_key ts w) ts)) v
                             (rt (ensure_key ts w)))\<rparr>"
  have flag: "once (statics ?w2 ts)"
    by (simp add: on_mem_def once_ensure_key)
  have "slot_lookup self ts ?w2 = pthread_getspecific (key (statics ?w2 ts)) self (rt ?w2)"
    by (simp only: slot_lookup_def ensure_key_done [OF flag])
  then show ?thesis
    using setspecific_ok_lookup [OF ok] by (simp add: on_mem_def)
qed

text \<open>
  One call of the debug accessor on a slot whose initializer always rejects, and what a
  change of the registry by one call implies.
\<close>

lemma debug_get_rejected:
  assumes init: "custom_init (statics w ts) = Some f"
    and fail: "\<forall>buf h. fst (f buf h) \<noteq> 0"
    and miss: "slot_lookup self ts w = NULL"
  shows "fst (debug_ast_threadstorage_get ex self ts init_size file func line w) = NULL
       \<and> statics (snd (debug_ast_threadstorage_get ex self ts init_size file func line w))
           = statics (ensure_key ts w)
       \<and> rt (snd (debug_ast_threadstorage_get ex self ts init_size file func line w))
           = rt (ensure_key ts w)
       \<and> objects (mem (snd (debug_ast_threadstorage_get ex self ts init_size file func line w)))
           = objects (mem w)
       \<and> faults (mem (snd (debug_ast_threadstorage_get ex self ts init_size file func line w)))
           = faults (mem w)"
  using assms
  by (simp add: debug_get_unfold custom_init_fails_def custom_init_ensure_key mem_ensure_key
      on_mem_def on_heap_def Let_def case_prod_beta split: option.splits)

lemma debug_get_registry_change:
  assumes "objects (mem (snd (debug_ast_threadstorage_get ex self ts init_size file func line w)))
             \<noteq> objects (mem w)
         \<or> faults (mem (snd (debug_ast_threadstorage_get ex self ts init_size file func line w)))
             \<noteq> faults (mem w)"
  shows "slot_lookup self ts w = NULL
       \<and> (\<exists>b. allocate ex (heap (mem w)) init_size = Some b
              \<and> \<not> fst (custom_init_fails ts (Block b)
                        (on_mem (on_heap (\<lambda>_. (heap (mem w))(b \<mapsto> replicate init_size 0)))
                           (ensure_key ts w)))
              \<and> fst (debug_ast_threadstorage_get ex self ts init_size file func line w) = Block b)"
proof -
  have custom_keeps: "objects (mem (snd (custom_init_fails ts p v))) = objects (mem v)
      \<and> faults (mem (snd (custom_init_fails ts p v))) = faults (mem v)" for p v
    by (simp add: custom_init_fails_def on_mem_def on_heap_def case_prod_beta split: option.splits)
  show ?thesis
    using assms custom_keeps
    by (auto simp: debug_get_unfold mem_ensure_key on_mem_def on_heap_def Let_def case_prod_beta
        split: option.splits if_splits)
qed

text \<open>
  The first call on a freshly declared plain slot, when a key is available, the allocator
  has a block and the runtime can store the value: the world it leaves.
\<close>

lemma plain_first_touch:
  assumes decl: "statics w name = AST_THREADSTORAGE name"
    and room: "length (destructors (rt w)) < keys_max (rt w)"
    and alloc: "allocate ex (heap (mem w)) init_size = Some b"
    and tls: "\<not> tls_nomem ex self (length (destructors (rt w)))"
  shows "ast_threadstorage_get ex self name init_size w =
          (Block b,
           \<lparr>statics = (statics w)(name := (AST_THREADSTORAGE name)
                          \<lparr>once := True, key := length (destructors (rt w))\<rparr>),
            rt = (rt w)\<lparr>destructors := destructors (rt w) @ [\<lambda>data. on_heap (ast_free_ptr data)],
                       specific := (\<lambda>t. if t = self
                          then (specific (rt w) t)(length (destructors (rt w)) := Block b)
                          else (specific (rt w) t)(length (destructors (rt w)) := NULL))\<rparr>,
            mem = (mem w)\<lparr>heap := (heap (mem w))(b \<mapsto> replicate init_size 0)\<rparr>\<rparr>)"
  using decl room alloc tls
  by (simp add: ast_threadstorage_get_def pthread_once_def init_name_def
      pthread_key_create_def store_key_def pthread_getspecific_def pthread_setspecific_def
      custom_init_fails_def ast_calloc_def on_mem_def on_heap_def AST_THREADSTORAGE_def
      AST_THREADSTORAGE_CUSTOM_def THREADSTORAGE_ONCE_INIT_def Let_def fun_eq_iff)

subsection \<open>C1: a cache hit returns the cached buffer whatever the size\<close>

text \<open>
  C1. When the thread-local lookup of thread \<open>self\<close> on descriptor \<open>ts\<close> returns a buffer
  \<open>buf\<close> that is not \<^verbatim>\<open>NULL\<close>, \<^verbatim>\<open>ast_threadstorage_get\<close> returns \<open>buf\<close> for any size
  \<open>s1\<close>, a second call of the same thread with any size \<open>s2\<close> returns \<open>buf\<close> again, and
  the memory (the heap with the buffer's bytes, and the registry) is after each call what
  it was before the first: nothing is reallocated. The allocator's answers \<open>ex1\<close> and
  \<open>ex2\<close> are arbitrary too.
\<close>

theorem get_hit_same_buffer:
  assumes "slot_lookup self ts w = buf" and "buf \<noteq> NULL"
  shows "fst (ast_threadstorage_get ex1 self ts s1 w) = buf
       \<and> fst (ast_threadstorage_get ex2 self ts s2 (snd (ast_threadstorage_get ex1 self ts s1 w))) = buf
       \<and> mem (snd (ast_threadstorage_get ex1 self ts s1 w)) = mem w
       \<and> mem (snd (ast_threadstorage_get ex2 self ts s2
                     (snd (ast_threadstorage_get ex1 self ts s1 w)))) = mem w"
proof -
  have first: "ast_threadstorage_get ex1 self ts s1 w = (buf, ensure_key ts w)"
    using assms by (simp add: get_unfold)
  have again: "slot_lookup self ts (ensure_key ts w) = buf"
    using assms by (simp add: slot_lookup_ensure_key)
  have second: "ast_threadstorage_get ex2 self ts s2 (ensure_key ts w) = (buf, ensure_key ts w)"
    using again assms(2) by (simp add: get_unfold ensure_key_idem)
  show ?thesis
    by (simp add: first second mem_ensure_key)
qed

text \<open>
  Thread 1 holds block 7 of 64 bytes in slot 0; it asks for 64 and then for 4096 bytes.
\<close>

theorem get_hit_same_buffer_witness:
  "slot_lookup 1 0 touched = Block 7 \<and> Block 7 \<noteq> NULL
   \<and> fst (ast_threadstorage_get ex_ok 1 0 64 touched) = Block 7
   \<and> fst (ast_threadstorage_get ex_ok 1 0 4096 (snd (ast_threadstorage_get ex_ok 1 0 64 touched)))
       = Block 7
   \<and> mem (snd (ast_threadstorage_get ex_ok 1 0 4096
                 (snd (ast_threadstorage_get ex_ok 1 0 64 touched)))) = mem touched"
proof -
  have hit: "slot_lookup 1 0 touched = Block 7"
    by (simp add: touched_def model_defs Let_def)
  show ?thesis
    using hit get_hit_same_buffer [OF hit, of ex_ok 64 ex_ok 4096] by simp
qed

subsection \<open>C2: a rejected block is released and nothing is cached\<close>

text \<open>
  C2. When the slot of thread \<open>self\<close> is empty, the allocator hands out block \<open>b\<close>, and the
  custom initializer \<open>f\<close> of the descriptor reports failure (a result other than 0) on the
  new zeroed block, \<^verbatim>\<open>ast_threadstorage_get\<close> returns \<^verbatim>\<open>NULL\<close>; block \<open>b\<close> is no longer
  allocated afterwards; the thread-local runtime is what the one-time key creation left,
  so nothing was stored in it; the registry is unchanged; the thread's lookup is still
  \<^verbatim>\<open>NULL\<close>. A subsequent call of the same thread, with any size and allocator answers,
  starts from scratch: its result is \<^verbatim>\<open>NULL\<close> when the allocator has no block or \<open>f\<close>
  rejects the new zeroed block, and the newly allocated block otherwise.
\<close>

theorem get_init_failure_rollback:
  assumes miss: "slot_lookup self ts w = NULL"
    and alloc: "allocate ex (heap (mem w)) init_size = Some b"
    and init: "custom_init (statics w ts) = Some f"
    and fail: "fst (f (Block b) ((heap (mem w))(b \<mapsto> replicate init_size 0))) \<noteq> 0"
  shows "fst (ast_threadstorage_get ex self ts init_size w) = NULL
       \<and> heap (mem (snd (ast_threadstorage_get ex self ts init_size w))) b = None
       \<and> rt (snd (ast_threadstorage_get ex self ts init_size w)) = rt (ensure_key ts w)
       \<and> objects (mem (snd (ast_threadstorage_get ex self ts init_size w))) = objects (mem w)
       \<and> slot_lookup self ts (snd (ast_threadstorage_get ex self ts init_size w)) = NULL
       \<and> fst (ast_threadstorage_get exb self ts sizeb (snd (ast_threadstorage_get ex self ts init_size w)))
           = (case allocate exb (heap (mem (snd (ast_threadstorage_get ex self ts init_size w)))) sizeb of
                None \<Rightarrow> NULL
              | Some b2 \<Rightarrow>
                  if fst (f (Block b2)
                       ((heap (mem (snd (ast_threadstorage_get ex self ts init_size w))))
                          (b2 \<mapsto> replicate sizeb 0))) \<noteq> 0
                  then NULL else Block b2)"
proof -
  let ?h = "(snd (f (Block b) ((heap (mem w))(b \<mapsto> replicate init_size 0))))(b := None)"
  let ?w = "on_mem (on_heap (\<lambda>_. ?h)) (ensure_key ts w)"
  have eq: "ast_threadstorage_get ex self ts init_size w = (NULL, ?w)"
    by (rule get_init_failure_unfold [OF miss alloc init fail])
  have empty: "slot_lookup self ts ?w = NULL"
    by (simp add: slot_lookup_on_mem slot_lookup_ensure_key miss)
  have init': "custom_init (statics ?w ts) = Some f"
    by (simp add: on_mem_def custom_init_ensure_key init)
  have retry: "fst (ast_threadstorage_get exb self ts sizeb ?w)
      = (case allocate exb (heap (mem ?w)) sizeb of
           None \<Rightarrow> NULL
         | Some b2 \<Rightarrow>
             if fst (f (Block b2) ((heap (mem ?w))(b2 \<mapsto> replicate sizeb 0))) \<noteq> 0
             then NULL else Block b2)"
    by (rule get_miss_result [OF empty init'])
  have "heap (mem ?w) b = None" "rt ?w = rt (ensure_key ts w)" "objects (mem ?w) = objects (mem w)"
    by (simp_all add: on_mem_def on_heap_def mem_ensure_key)
  then show ?thesis
    using empty retry by (simp only: eq fst_conv snd_conv)
qed

text \<open>
  Thread 1 touches slot 0, declared with the rejecting initializer, with size 64; block 7
  is handed out, rejected and released; the retry with size 32 fails the same way.
\<close>

theorem get_init_failure_rollback_witness:
  "slot_lookup 1 0 (boot rejecting) = NULL
   \<and> allocate ex_ok (heap (mem (boot rejecting))) 64 = Some 7
   \<and> custom_init (statics (boot rejecting) 0) = Some init_reject
   \<and> fst (init_reject (Block 7) ((heap (mem (boot rejecting)))(7 \<mapsto> replicate 64 0))) \<noteq> 0
   \<and> fst (ast_threadstorage_get ex_ok 1 0 64 (boot rejecting)) = NULL
   \<and> heap (mem (snd (ast_threadstorage_get ex_ok 1 0 64 (boot rejecting)))) 7 = None
   \<and> slot_lookup 1 0 (snd (ast_threadstorage_get ex_ok 1 0 64 (boot rejecting))) = NULL
   \<and> fst (ast_threadstorage_get ex_ok 1 0 32 (snd (ast_threadstorage_get ex_ok 1 0 64 (boot rejecting))))
       = NULL"
proof -
  have miss: "slot_lookup 1 0 (boot rejecting) = NULL"
    by (simp add: model_defs Let_def)
  have alloc: "allocate ex_ok (heap (mem (boot rejecting))) 64 = Some 7"
    by (simp add: model_defs)
  have init: "custom_init (statics (boot rejecting) 0) = Some init_reject"
    by (simp add: model_defs)
  have fail: "fst (init_reject (Block 7) ((heap (mem (boot rejecting)))(7 \<mapsto> replicate 64 0))) \<noteq> 0"
    by (simp add: init_reject_def)
  have again: "fst (init_reject (Block b) h) \<noteq> 0" for b h
    by (simp add: init_reject_def)
  show ?thesis
    using miss alloc init fail again
      get_init_failure_rollback [OF miss alloc init fail, of ex_ok 32]
    by (simp split: option.splits)
qed

subsection \<open>C3: allocation failure registers nothing\<close>

text \<open>
  C3. When the slot of thread \<open>self\<close> is empty and the allocator has no block for the
  request of \<open>init_size\<close> bytes, both accessors return \<^verbatim>\<open>NULL\<close> and the world they leave
  is the one the one-time key creation left: the memory (heap and debug registry) is
  unchanged, every lookup of every thread under every key returns what it returned before,
  and the thread's slot is still empty. What both accessors ask of the allocator on an
  empty slot is a zero-initialized block of \<open>init_size\<close> bytes: had the allocator answered
  the request of \<open>init_size\<close> bytes with a block \<open>b\<close> (answers \<open>ex'\<close>), then, in both
  builds, a slot without custom initializer returns \<open>b\<close> and the heap after the call is
  the old heap with \<open>init_size\<close> zero bytes in \<open>b\<close>; and a slot with custom initializer
  \<open>f\<close> has run \<open>f\<close> on \<open>b\<close> in exactly that heap, returning \<open>b\<close> and leaving the heap of
  \<open>f\<close> when \<open>f\<close> reports success, and returning \<^verbatim>\<open>NULL\<close> and leaving the heap of \<open>f\<close>
  without \<open>b\<close> when it reports failure.
\<close>

theorem get_alloc_failure:
  assumes miss: "slot_lookup self ts w = NULL"
    and none: "allocate ex (heap (mem w)) init_size = None"
  shows "ast_threadstorage_get ex self ts init_size w = (NULL, ensure_key ts w)
       \<and> debug_ast_threadstorage_get ex self ts init_size file func line w = (NULL, ensure_key ts w)
       \<and> mem (ensure_key ts w) = mem w
       \<and> (\<forall>t k. pthread_getspecific k t (rt (ensure_key ts w)) = pthread_getspecific k t (rt w))
       \<and> slot_lookup self ts (ensure_key ts w) = NULL
       \<and> (\<forall>ex' b. allocate ex' (heap (mem w)) init_size = Some b \<longrightarrow>
            (case custom_init (statics w ts) of
               None \<Rightarrow>
                 fst (ast_threadstorage_get ex' self ts init_size w) = Block b
                 \<and> heap (mem (snd (ast_threadstorage_get ex' self ts init_size w)))
                     = (heap (mem w))(b \<mapsto> replicate init_size 0)
                 \<and> fst (debug_ast_threadstorage_get ex' self ts init_size file func line w) = Block b
                 \<and> heap (mem (snd (debug_ast_threadstorage_get ex' self ts init_size file func line w)))
                     = (heap (mem w))(b \<mapsto> replicate init_size 0)
             | Some f \<Rightarrow>
                 fst (ast_threadstorage_get ex' self ts init_size w)
                   = (if fst (f (Block b) ((heap (mem w))(b \<mapsto> replicate init_size 0))) \<noteq> 0
                      then NULL else Block b)
                 \<and> heap (mem (snd (ast_threadstorage_get ex' self ts init_size w)))
                     = (if fst (f (Block b) ((heap (mem w))(b \<mapsto> replicate init_size 0))) \<noteq> 0
                        then (snd (f (Block b) ((heap (mem w))(b \<mapsto> replicate init_size 0))))(b := None)
                        else snd (f (Block b) ((heap (mem w))(b \<mapsto> replicate init_size 0))))
                 \<and> fst (debug_ast_threadstorage_get ex' self ts init_size file func line w)
                   = (if fst (f (Block b) ((heap (mem w))(b \<mapsto> replicate init_size 0))) \<noteq> 0
                      then NULL else Block b)
                 \<and> heap (mem (snd (debug_ast_threadstorage_get ex' self ts init_size file func line w)))
                     = (if fst (f (Block b) ((heap (mem w))(b \<mapsto> replicate init_size 0))) \<noteq> 0
                        then (snd (f (Block b) ((heap (mem w))(b \<mapsto> replicate init_size 0))))(b := None)
                        else snd (f (Block b) ((heap (mem w))(b \<mapsto> replicate init_size 0))))))"
proof -
  have fail_half: "ast_threadstorage_get ex self ts init_size w = (NULL, ensure_key ts w)
       \<and> debug_ast_threadstorage_get ex self ts init_size file func line w = (NULL, ensure_key ts w)
       \<and> mem (ensure_key ts w) = mem w
       \<and> (\<forall>t k. pthread_getspecific k t (rt (ensure_key ts w)) = pthread_getspecific k t (rt w))
       \<and> slot_lookup self ts (ensure_key ts w) = NULL"
    using assms
    by (simp add: get_unfold debug_get_unfold mem_ensure_key getspecific_ensure_key
        slot_lookup_ensure_key)
  show ?thesis
    using fail_half get_miss_alloc_heap [OF miss, of _ init_size _ "file" func line]
    by blast
qed

text \<open>
  Thread 1 touches slot 0 with size 64 in a fresh process while the allocator is
  exhausted: the plain slot in both builds, and the slot with the rejecting initializer.
  With the allocator that has block 7, the plain slot holds 64 zero bytes in block 7 in
  both builds, and the rejecting initializer has run and its block is released.
\<close>

theorem get_alloc_failure_witness:
  "slot_lookup 1 0 (boot AST_THREADSTORAGE) = NULL
   \<and> allocate ex_exhausted (heap (mem (boot AST_THREADSTORAGE))) 64 = None
   \<and> fst (ast_threadstorage_get ex_exhausted 1 0 64 (boot AST_THREADSTORAGE)) = NULL
   \<and> fst (debug_ast_threadstorage_get ex_exhausted 1 0 64 ''app.c'' ''handler'' 42
             (boot debug_AST_THREADSTORAGE)) = NULL
   \<and> mem (snd (ast_threadstorage_get ex_exhausted 1 0 64 (boot AST_THREADSTORAGE))) = mem0
   \<and> mem (snd (debug_ast_threadstorage_get ex_exhausted 1 0 64 ''app.c'' ''handler'' 42
             (boot debug_AST_THREADSTORAGE))) = mem0
   \<and> slot_lookup 1 0 (snd (ast_threadstorage_get ex_exhausted 1 0 64 (boot AST_THREADSTORAGE))) = NULL
   \<and> heap (mem (snd (ast_threadstorage_get ex_ok 1 0 64 (boot AST_THREADSTORAGE))))
       = [7 \<mapsto> replicate 64 0]
   \<and> heap (mem (snd (debug_ast_threadstorage_get ex_ok 1 0 64 ''app.c'' ''handler'' 42
             (boot debug_AST_THREADSTORAGE))))
       = [7 \<mapsto> replicate 64 0]
   \<and> fst (debug_ast_threadstorage_get ex_ok 1 0 64 ''app.c'' ''handler'' 42 (boot debug_rejecting))
       = NULL
   \<and> heap (mem (snd (debug_ast_threadstorage_get ex_ok 1 0 64 ''app.c'' ''handler'' 42
             (boot debug_rejecting)))) = Map.empty"
proof -
  have miss: "slot_lookup 1 0 (boot AST_THREADSTORAGE) = NULL"
    by (simp add: model_defs Let_def)
  have miss': "slot_lookup 1 0 (boot debug_AST_THREADSTORAGE) = NULL"
    by (simp add: model_defs Let_def)
  have miss'': "slot_lookup 1 0 (boot debug_rejecting) = NULL"
    by (simp add: model_defs Let_def)
  have none: "allocate ex_exhausted (heap (mem (boot d))) 64 = None" for d
    by (simp add: ex_exhausted_def)
  have m: "mem (boot d) = mem0" for d
    by (simp add: boot_def)
  have some: "allocate ex_ok (heap (mem (boot d))) 64 = Some 7" for d
    by (simp add: model_defs)
  have plain: "custom_init (statics (boot AST_THREADSTORAGE) 0) = None"
    "custom_init (statics (boot debug_AST_THREADSTORAGE) 0) = None"
    by (simp_all add: model_defs)
  have custom: "custom_init (statics (boot debug_rejecting) 0) = Some init_reject"
    by (simp add: model_defs)
  have h0: "heap (mem (boot d)) = Map.empty" for d
    by (simp add: boot_def mem0_def)
  have rejected: "init_reject (Block 7) [7 \<mapsto> replicate 64 0] = (- 1, [7 \<mapsto> [255]])"
    by (simp add: init_reject_def)
  note plain_build = get_alloc_failure [OF miss none, of "''app.c''" "''handler''" 42]
  note debug_build = get_alloc_failure [OF miss' none, of "''app.c''" "''handler''" 42]
  note reject_build = get_alloc_failure [OF miss'' none, of "''app.c''" "''handler''" 42]
  from plain_build some [of AST_THREADSTORAGE]
  have zeroed: "heap (mem (snd (ast_threadstorage_get ex_ok 1 0 64 (boot AST_THREADSTORAGE))))
      = [7 \<mapsto> replicate 64 0]"
    by (auto simp: plain h0)
  from debug_build some [of debug_AST_THREADSTORAGE]
  have zeroed': "heap (mem (snd (debug_ast_threadstorage_get ex_ok 1 0 64 ''app.c'' ''handler'' 42
             (boot debug_AST_THREADSTORAGE)))) = [7 \<mapsto> replicate 64 0]"
    by (auto simp: plain h0)
  from reject_build some [of debug_rejecting]
  have released: "fst (debug_ast_threadstorage_get ex_ok 1 0 64 ''app.c'' ''handler'' 42
             (boot debug_rejecting)) = NULL
     \<and> heap (mem (snd (debug_ast_threadstorage_get ex_ok 1 0 64 ''app.c'' ''handler'' 42
             (boot debug_rejecting)))) = Map.empty"
    by (auto simp: custom h0 rejected)
  show ?thesis
    using miss none [of AST_THREADSTORAGE] m zeroed zeroed' released plain_build debug_build
    by simp
qed

subsection \<open>C5: the key of the registry entry at insertion and at cleanup\<close>

text \<open>
  C5 says that the entry the accessor inserts and the entry the cleanup removes are
  identified by the same key. The code files the entry under \<^verbatim>\<open>&ts->key\<close> and removes
  under \<^verbatim>\<open>data\<close>, the buffer. In the \<^verbatim>\<open>DEBUG_THREADLOCALS\<close> build, thread 1 calls the
  accessor on the plain slot 0 with size 64 and gets block 7, which its slot then holds;
  the registry has one entry, filed under the address of the descriptor's key. At the
  thread's exit the runtime runs the key's destructor \<^verbatim>\<open>__cleanup_<name>\<close> on block 7: the
  block is released, the entry is still in the registry, and the registry has reported
  one removal of an absent key.
\<close>

theorem cleanup_removes_under_other_key:
  "fst (debug_ast_threadstorage_get ex_ok 1 0 64 ''chan.c'' ''send'' 10
          (boot debug_AST_THREADSTORAGE)) = Block 7
   \<and> pthread_getspecific (key (statics debug_touched 0)) 1 (rt debug_touched) = Block 7
   \<and> map obj_key (objects (mem debug_touched)) = [Key_of 0]
   \<and> heap (mem (run_destructor 1 (key (statics debug_touched 0)) debug_touched)) 7 = None
   \<and> map obj_key (objects (mem (run_destructor 1 (key (statics debug_touched 0)) debug_touched)))
       = [Key_of 0]
   \<and> faults (mem (run_destructor 1 (key (statics debug_touched 0)) debug_touched)) = 1"
  by (simp add: debug_touched_def model_defs Let_def)

subsection \<open>C6: the registry during the cleanup\<close>

text \<open>
  C6 says that the cleanup removes the registry entry of the buffer first and releases
  the buffer after, so that at no point of the cleanup an entry stands for released
  memory. The code calls \<^verbatim>\<open>__ast_threadstorage_object_remove(data)\<close> before
  \<^verbatim>\<open>c_cleanup(data)\<close>, but the entry of the buffer is filed under \<^verbatim>\<open>&ts->key\<close>, not under
  \<open>data\<close>. In the \<^verbatim>\<open>DEBUG_THREADLOCALS\<close> build, starting with an empty registry, thread 1
  calls the accessor on the plain slot 0 with size 64 from line 10 of \<^verbatim>\<open>chan.c\<close> and gets
  block 7; the registry then holds the one entry of this buffer, and block 7 holds 64
  bytes. At the thread's exit the runtime runs \<^verbatim>\<open>__cleanup_<name>\<close> on block 7. After its
  first statement the registry still holds the entry (and block 7 is still allocated);
  after its second statement block 7 is released and the registry still holds the entry
  of the released buffer.
\<close>

theorem cleanup_leaves_entry_of_released_buffer:
  "objects (mem (boot debug_AST_THREADSTORAGE)) = []
   \<and> fst (debug_ast_threadstorage_get ex_ok 1 0 64 ''chan.c'' ''send'' 10
            (boot debug_AST_THREADSTORAGE)) = Block 7
   \<and> objects (mem debug_touched)
       = [\<lparr>obj_key = Key_of 0, obj_size = 64, obj_file = ''chan.c'', obj_function = ''send'',
           obj_line = 10\<rparr>]
   \<and> heap (mem debug_touched) 7 = Some (replicate 64 0)
   \<and> pthread_getspecific (key (statics debug_touched 0)) 1 (rt debug_touched) = Block 7
   \<and> mem (run_destructor 1 (key (statics debug_touched 0)) debug_touched)
       = cleanup_name ast_free_ptr (Block 7) (mem debug_touched)
   \<and> objects (ast_threadstorage_object_remove (Block 7) (mem debug_touched))
       = objects (mem debug_touched)
   \<and> heap (ast_threadstorage_object_remove (Block 7) (mem debug_touched)) 7
       = Some (replicate 64 0)
   \<and> objects (cleanup_name ast_free_ptr (Block 7) (mem debug_touched))
       = objects (mem debug_touched)
   \<and> heap (cleanup_name ast_free_ptr (Block 7) (mem debug_touched)) 7 = None"
  by (simp add: debug_touched_def model_defs Let_def)

subsection \<open>C7: a slot whose initializer always fails never registers\<close>

text \<open>
  C7. In the \<^verbatim>\<open>DEBUG_THREADLOCALS\<close> build, take a descriptor whose custom initializer \<open>f\<close>
  reports failure on every block, in a world where the slot is empty for every thread.
  Then every call of any sequence \<open>cs\<close> of accessor calls on the descriptor, by any
  threads, with any sizes, call sites and allocator answers, returns \<^verbatim>\<open>NULL\<close>; the
  registry's entries and its error count are after the sequence what they were before;
  and the slot is still empty for every thread. For one call \<open>d\<close> in any world \<open>v\<close>: when
  the call changes the registry, the slot was empty, the allocator handed out a block,
  the custom initialization did not fail on it, and the call returned that block.
\<close>

theorem debug_get_rejecting_never_registers:
  assumes init: "custom_init (statics w ts) = Some f"
    and fail: "\<forall>buf h. fst (f buf h) \<noteq> 0"
    and empty: "\<forall>t. slot_lookup t ts w = NULL"
  shows "fst (debug_calls ts cs w) = replicate (length cs) NULL
       \<and> objects (mem (snd (debug_calls ts cs w))) = objects (mem w)
       \<and> faults (mem (snd (debug_calls ts cs w))) = faults (mem w)
       \<and> (\<forall>t. slot_lookup t ts (snd (debug_calls ts cs w)) = NULL)
       \<and> (\<forall>ex self init_size file func line v.
             objects (mem (snd (debug_ast_threadstorage_get ex self ts init_size file func line v)))
               \<noteq> objects (mem v)
             \<or> faults (mem (snd (debug_ast_threadstorage_get ex self ts init_size file func line v)))
               \<noteq> faults (mem v)
             \<longrightarrow> slot_lookup self ts v = NULL
               \<and> (\<exists>b. allocate ex (heap (mem v)) init_size = Some b
                      \<and> \<not> fst (custom_init_fails ts (Block b)
                                (on_mem (on_heap (\<lambda>_. (heap (mem v))(b \<mapsto> replicate init_size 0)))
                                   (ensure_key ts v)))
                      \<and> fst (debug_ast_threadstorage_get ex self ts init_size file func line v)
                          = Block b))"
proof -
  have seq: "fst (debug_calls ts cs w) = replicate (length cs) NULL
       \<and> objects (mem (snd (debug_calls ts cs w))) = objects (mem w)
       \<and> faults (mem (snd (debug_calls ts cs w))) = faults (mem w)
       \<and> (\<forall>t. slot_lookup t ts (snd (debug_calls ts cs w)) = NULL)"
    using init empty
  proof (induction cs arbitrary: w)
    case Nil
    then show ?case by simp
  next
    case (Cons c cs)
    obtain ex self init_size site func line where c: "c = (ex, self, init_size, site, func, line)"
      by (cases c)
    let ?r = "debug_ast_threadstorage_get ex self ts init_size site func line w"
    have miss: "slot_lookup self ts w = NULL"
      using Cons.prems(2) by simp
    note step = debug_get_rejected [OF Cons.prems(1) fail miss, of ex init_size site func line]
    have init': "custom_init (statics (snd ?r) ts) = Some f"
      using step Cons.prems(1) by (simp add: custom_init_ensure_key)
    have empty': "\<forall>t. slot_lookup t ts (snd ?r) = NULL"
    proof
      fix t
      have "slot_lookup t ts (snd ?r) = slot_lookup t ts (ensure_key ts w)"
        using step by (intro slot_lookup_cong) simp_all
      then show "slot_lookup t ts (snd ?r) = NULL"
        using Cons.prems(2) by (simp add: slot_lookup_ensure_key)
    qed
    note rest = Cons.IH [OF init' empty']
    show ?case
      using step rest by (simp add: c Let_def case_prod_beta)
  qed
  show ?thesis
    using seq debug_get_registry_change [of _ _ ts] by blast
qed

text \<open>
  Threads 1 and 2 call the accessor on slot 0, declared with the rejecting initializer,
  three times in a fresh process.
\<close>

theorem debug_get_rejecting_never_registers_witness:
  "custom_init (statics (boot debug_rejecting) 0) = Some init_reject
   \<and> (\<forall>buf h. fst (init_reject buf h) \<noteq> 0)
   \<and> (\<forall>t. slot_lookup t 0 (boot debug_rejecting) = NULL)
   \<and> fst (debug_calls 0
        [(ex_ok, 1, 64, ''chan.c'', ''send'', 10), (ex_ok, 2, 64, ''chan.c'', ''send'', 10),
         (ex_exhausted, 1, 16, ''cli.c'', ''show'', 77)] (boot debug_rejecting))
       = [NULL, NULL, NULL]
   \<and> objects (mem (snd (debug_calls 0
        [(ex_ok, 1, 64, ''chan.c'', ''send'', 10), (ex_ok, 2, 64, ''chan.c'', ''send'', 10),
         (ex_exhausted, 1, 16, ''cli.c'', ''show'', 77)] (boot debug_rejecting)))) = []"
proof -
  have init: "custom_init (statics (boot debug_rejecting) 0) = Some init_reject"
    by (simp add: model_defs)
  have fail: "\<forall>buf h. fst (init_reject buf h) \<noteq> 0"
    by (simp add: init_reject_def)
  have empty: "\<forall>t. slot_lookup t 0 (boot debug_rejecting) = NULL"
    by (simp add: model_defs Let_def)
  have none: "objects (mem (boot debug_rejecting)) = []"
    by (simp add: model_defs)
  note run = debug_get_rejecting_never_registers [OF init fail empty, of
        "[(ex_ok, 1, 64, ''chan.c'', ''send'', 10), (ex_ok, 2, 64, ''chan.c'', ''send'', 10),
          (ex_exhausted, 1, 16, ''cli.c'', ''show'', 77)]"]
  from run have results: "fst (debug_calls 0
        [(ex_ok, 1, 64, ''chan.c'', ''send'', 10), (ex_ok, 2, 64, ''chan.c'', ''send'', 10),
         (ex_exhausted, 1, 16, ''cli.c'', ''show'', 77)] (boot debug_rejecting))
       = replicate (length
           [(ex_ok, 1::nat, 64::nat, ''chan.c'', ''send'', 10::nat), (ex_ok, 2, 64, ''chan.c'', ''send'', 10),
            (ex_exhausted, 1, 16, ''cli.c'', ''show'', 77)]) NULL"
    by blast
  from run have kept: "objects (mem (snd (debug_calls 0
        [(ex_ok, 1, 64, ''chan.c'', ''send'', 10), (ex_ok, 2, 64, ''chan.c'', ''send'', 10),
         (ex_exhausted, 1, 16, ''cli.c'', ''show'', 77)] (boot debug_rejecting))))
       = objects (mem (boot debug_rejecting))"
    by blast
  show ?thesis
    using init fail empty none results kept
    by (simp del: debug_calls.simps)
qed

subsection \<open>C8: a slot declared with the plain macro\<close>

text \<open>
  C8. The descriptor \<^verbatim>\<open>AST_THREADSTORAGE(name)\<close> has no custom initializer, and its
  \<^verbatim>\<open>__init_<name>\<close> registers \<^verbatim>\<open>ast_free_ptr\<close>, which releases the block it is given.
  Take a world in which the descriptor is as declared, a key can still be created, the
  allocator hands out block \<open>b\<close> for 64 bytes, and the runtime can store the thread's
  value. Then the first call of thread \<open>self\<close> with size 64 returns block \<open>b\<close>, which
  holds 64 zero bytes; the destructor registered under the descriptor's key is the
  release by \<^verbatim>\<open>ast_free_ptr\<close>; and a second call of the same thread, with any size and
  allocator answers, returns block \<open>b\<close> again and leaves the world as it is.
\<close>

theorem plain_slot_scenario:
  assumes decl: "statics w name = AST_THREADSTORAGE name"
    and room: "length (destructors (rt w)) < keys_max (rt w)"
    and alloc: "allocate ex (heap (mem w)) 64 = Some b"
    and tls: "\<not> tls_nomem ex self (length (destructors (rt w)))"
  shows "custom_init (AST_THREADSTORAGE name) = None
       \<and> key_init (AST_THREADSTORAGE name) = Init_name name (\<lambda>data. on_heap (ast_free_ptr data))
       \<and> ast_free_ptr (Block c) h = h(c := None)
       \<and> fst (ast_threadstorage_get ex self name 64 w) = Block b
       \<and> heap (mem (snd (ast_threadstorage_get ex self name 64 w))) b = Some (replicate 64 0)
       \<and> destructors (rt (snd (ast_threadstorage_get ex self name 64 w)))
             ! key (statics (snd (ast_threadstorage_get ex self name 64 w)) name)
           = (\<lambda>data. on_heap (ast_free_ptr data))
       \<and> ast_threadstorage_get exb self name sizeb (snd (ast_threadstorage_get ex self name 64 w))
           = (Block b, snd (ast_threadstorage_get ex self name 64 w))"
proof -
  let ?k = "length (destructors (rt w))"
  let ?w1 = "\<lparr>statics = (statics w)(name := (AST_THREADSTORAGE name)\<lparr>once := True, key := ?k\<rparr>),
             rt = (rt w)\<lparr>destructors := destructors (rt w) @ [\<lambda>data. on_heap (ast_free_ptr data)],
                        specific := (\<lambda>t. if t = self then (specific (rt w) t)(?k := Block b)
                                          else (specific (rt w) t)(?k := NULL))\<rparr>,
             mem = (mem w)\<lparr>heap := (heap (mem w))(b \<mapsto> replicate 64 0)\<rparr>\<rparr>"
  have first: "ast_threadstorage_get ex self name 64 w = (Block b, ?w1)"
    by (rule plain_first_touch [OF decl room alloc tls])
  have flag: "once (statics ?w1 name)"
    by simp
  have hit: "slot_lookup self name ?w1 = Block b"
    by (simp add: slot_lookup_def ensure_key_done [OF flag] pthread_getspecific_def)
  have second: "ast_threadstorage_get exb self name sizeb ?w1 = (Block b, ?w1)"
    by (simp only: get_unfold hit ensure_key_done [OF flag]) simp
  have macro: "custom_init (AST_THREADSTORAGE name) = None"
    "key_init (AST_THREADSTORAGE name) = Init_name name (\<lambda>data. on_heap (ast_free_ptr data))"
    by (simp_all add: AST_THREADSTORAGE_def AST_THREADSTORAGE_CUSTOM_def)
  have release: "ast_free_ptr (Block c) h = h(c := None)"
    by (simp add: ast_free_ptr_def free_def)
  show ?thesis
    by (simp only: first second macro release fst_conv snd_conv) simp
qed

text \<open>Thread 1 touches the plain slot 0 with size 64 in a fresh process, twice.\<close>

theorem plain_slot_scenario_witness:
  "statics (boot AST_THREADSTORAGE) 0 = AST_THREADSTORAGE 0
   \<and> length (destructors (rt (boot AST_THREADSTORAGE))) < keys_max (rt (boot AST_THREADSTORAGE))
   \<and> allocate ex_ok (heap (mem (boot AST_THREADSTORAGE))) 64 = Some 7
   \<and> fst (ast_threadstorage_get ex_ok 1 0 64 (boot AST_THREADSTORAGE)) = Block 7
   \<and> heap (mem touched) 7 = Some (replicate 64 0)
   \<and> fst (ast_threadstorage_get ex_ok 1 0 64 touched) = Block 7"
proof -
  have decl: "statics (boot AST_THREADSTORAGE) 0 = AST_THREADSTORAGE 0"
    by (simp add: boot_def)
  have room: "length (destructors (rt (boot AST_THREADSTORAGE))) < keys_max (rt (boot AST_THREADSTORAGE))"
    by (simp add: boot_def rt0_def)
  have alloc: "allocate ex_ok (heap (mem (boot AST_THREADSTORAGE))) 64 = Some 7"
    by (simp add: boot_def mem0_def ex_ok_def)
  have tls: "\<not> tls_nomem ex_ok 1 (length (destructors (rt (boot AST_THREADSTORAGE))))"
    by (simp add: ex_ok_def)
  show ?thesis
    using decl room alloc plain_slot_scenario [OF decl room alloc tls, where exb = ex_ok and sizeb = 64]
    by (simp add: touched_def)
qed

subsection \<open>C9: a cache hit changes nothing and cannot fail\<close>

text \<open>
  C9. When the slot of thread \<open>self\<close> holds a buffer, both accessors return it, so the
  result is not \<^verbatim>\<open>NULL\<close>, and the world they leave is the one the one-time key creation
  left, whatever the allocator's answers, the size and the descriptor's custom
  initializer are: the memory (heap and debug registry) is unchanged, so nothing was
  allocated, initialized or registered; every lookup of every thread under every key
  returns what it returned before, so no slot was written; and when the key had been
  created before, the whole world is unchanged. A call can thus return \<^verbatim>\<open>NULL\<close> only when
  it finds the slot empty.
\<close>

theorem get_hit_frame:
  assumes "slot_lookup self ts w \<noteq> NULL"
  shows "ast_threadstorage_get ex self ts init_size w = (slot_lookup self ts w, ensure_key ts w)
       \<and> debug_ast_threadstorage_get ex self ts init_size file func line w
           = (slot_lookup self ts w, ensure_key ts w)
       \<and> mem (ensure_key ts w) = mem w
       \<and> (\<forall>t k. pthread_getspecific k t (rt (ensure_key ts w)) = pthread_getspecific k t (rt w))
       \<and> (once (statics w ts) \<longrightarrow> ensure_key ts w = w)
       \<and> fst (ast_threadstorage_get ex self ts init_size w) \<noteq> NULL
       \<and> fst (debug_ast_threadstorage_get ex self ts init_size file func line w) \<noteq> NULL"
  using assms
  by (simp add: get_unfold debug_get_unfold mem_ensure_key getspecific_ensure_key ensure_key_done)

text \<open>
  Thread 1 holds block 7 in slot 0 and calls both accessors while the allocator is
  exhausted.
\<close>

theorem get_hit_frame_witness:
  "slot_lookup 1 0 touched \<noteq> NULL
   \<and> ast_threadstorage_get ex_exhausted 1 0 4096 touched = (Block 7, touched)
   \<and> debug_ast_threadstorage_get ex_exhausted 1 0 4096 ''app.c'' ''handler'' 42 touched
       = (Block 7, touched)"
proof -
  have hit: "slot_lookup 1 0 touched = Block 7"
    by (simp add: touched_def model_defs Let_def)
  have flag: "once (statics touched 0)"
    by (simp add: touched_def model_defs Let_def)
  have live: "slot_lookup 1 0 touched \<noteq> NULL"
    unfolding hit by simp
  show ?thesis
    using hit flag get_hit_frame [OF live, of ex_exhausted 4096 "''app.c''" "''handler''" 42]
    by simp
qed

subsection \<open>C10: the result of the registration is not looked at\<close>

text \<open>
  C10. When the slot of thread \<open>self\<close> is empty, the allocator hands out block \<open>b\<close>, and the
  custom initializer, if the descriptor has one, reports success on the new zeroed block,
  both accessors return block \<open>b\<close>, whatever \<^verbatim>\<open>pthread_setspecific\<close> returns, and the
  world they leave is fixed whatever it returns: the descriptors are those the one-time
  key creation left, the heap is the one the initializer left (the old heap with the
  zeroed block \<open>b\<close> when there is no initializer), so the accessor releases nothing, the
  thread-local runtime is the one \<^verbatim>\<open>pthread_setspecific\<close> left, and in the debug build
  the registry entry is added. When the registration fails (its result is not 0), the
  runtime is unchanged and the slot of the thread is still empty after the call, yet block
  \<open>b\<close> is returned and the heap is the same; when it succeeds, the slot holds block \<open>b\<close>.
\<close>

theorem get_ignores_setspecific_result:
  assumes miss: "slot_lookup self ts w = NULL"
    and alloc: "allocate ex (heap (mem w)) init_size = Some b"
    and init: "case custom_init (statics w ts) of
                 None \<Rightarrow> True
               | Some f \<Rightarrow> fst (f (Block b) ((heap (mem w))(b \<mapsto> replicate init_size 0))) = 0"
  shows "(let hz = (heap (mem w))(b \<mapsto> replicate init_size 0);
              hi = (case custom_init (statics w ts) of None \<Rightarrow> hz | Some f \<Rightarrow> snd (f (Block b) hz));
              w1 = ensure_key ts w;
              reg = pthread_setspecific ex self (key (statics w1 ts)) (Block b) (rt w1);
              w2 = (on_mem (on_heap (\<lambda>_. hi)) w1)\<lparr>rt := snd reg\<rparr>
          in ast_threadstorage_get ex self ts init_size w = (Block b, w2)
           \<and> debug_ast_threadstorage_get ex self ts init_size file func line w
               = (Block b, on_mem (ast_threadstorage_object_add (Key_of ts) init_size file func line) w2)
           \<and> heap (mem (snd (ast_threadstorage_get ex self ts init_size w))) = hi
           \<and> heap (mem (snd (debug_ast_threadstorage_get ex self ts init_size file func line w))) = hi
           \<and> (fst reg \<noteq> 0 \<longrightarrow>
                rt (snd (ast_threadstorage_get ex self ts init_size w)) = rt w1
              \<and> rt (snd (debug_ast_threadstorage_get ex self ts init_size file func line w)) = rt w1)
           \<and> (fst reg = 0 \<longrightarrow>
                slot_lookup self ts (snd (ast_threadstorage_get ex self ts init_size w)) = Block b
              \<and> slot_lookup self ts
                   (snd (debug_ast_threadstorage_get ex self ts init_size file func line w)) = Block b))
       \<and> fst (ast_threadstorage_get ex self ts init_size w) = Block b
       \<and> fst (debug_ast_threadstorage_get ex self ts init_size file func line w) = Block b
       \<and> (fst (pthread_setspecific ex self (key (statics (ensure_key ts w) ts)) (Block b)
                 (rt (ensure_key ts w))) \<noteq> 0
            \<longrightarrow> slot_lookup self ts (snd (ast_threadstorage_get ex self ts init_size w)) = NULL
              \<and> slot_lookup self ts
                   (snd (debug_ast_threadstorage_get ex self ts init_size file func line w)) = NULL)"
proof -
  let ?hz = "(heap (mem w))(b \<mapsto> replicate init_size 0)"
  let ?hi = "case custom_init (statics w ts) of None \<Rightarrow> ?hz | Some f \<Rightarrow> snd (f (Block b) ?hz)"
  let ?set = "pthread_setspecific ex self (key (statics (ensure_key ts w) ts)) (Block b)
                (rt (ensure_key ts w))"
  let ?w2 = "(on_mem (on_heap (\<lambda>_. ?hi)) (ensure_key ts w))\<lparr>rt := snd ?set\<rparr>"
  have g: "ast_threadstorage_get ex self ts init_size w = (Block b, ?w2)"
    using init
    by (cases "custom_init (statics w ts)")
      (simp_all add: get_miss_alloc_unfold [OF miss alloc] Let_def)
  have d: "debug_ast_threadstorage_get ex self ts init_size file func line w =
          (Block b, on_mem (ast_threadstorage_object_add (Key_of ts) init_size file func line) ?w2)"
    using init
    by (cases "custom_init (statics w ts)")
      (simp_all add: debug_get_miss_alloc_unfold [OF miss alloc] Let_def)
  have heaps: "heap (mem ?w2) = ?hi"
    "heap (mem (on_mem (ast_threadstorage_object_add (Key_of ts) init_size file func line) ?w2)) = ?hi"
    by (simp_all add: on_mem_def on_heap_def heap_object_add)
  have rts: "rt ?w2 = rt (ensure_key ts w)"
    "rt (on_mem (ast_threadstorage_object_add (Key_of ts) init_size file func line) ?w2)
       = rt (ensure_key ts w)"
    if "fst ?set \<noteq> 0"
    by (simp_all add: on_mem_def setspecific_failed [OF that])
  have empty: "slot_lookup self ts ?w2 = NULL" if "fst ?set \<noteq> 0"
  proof -
    have "slot_lookup self ts ?w2 = slot_lookup self ts (ensure_key ts w)"
      by (rule slot_lookup_cong) (simp_all add: on_mem_def setspecific_failed [OF that])
    then show ?thesis
      by (simp add: slot_lookup_ensure_key miss)
  qed
  have cached: "slot_lookup self ts ?w2 = Block b" if "fst ?set = 0"
    by (rule registered_lookup [OF that])
  show ?thesis
    unfolding Let_def g d fst_conv snd_conv
    using heaps rts empty cached by (simp add: slot_lookup_on_mem)
qed

text \<open>
  Thread 1 touches the plain slot 0 with size 64 in a fresh process while the thread-local
  runtime is out of memory: \<^verbatim>\<open>pthread_setspecific\<close> returns \<^verbatim>\<open>ENOMEM\<close>, the accessor
  returns block 7, which still holds its 64 zero bytes, and the slot stays empty.
\<close>

theorem get_ignores_setspecific_result_witness:
  "slot_lookup 1 0 (boot AST_THREADSTORAGE) = NULL
   \<and> allocate ex_tls_nomem (heap (mem (boot AST_THREADSTORAGE))) 64 = Some 7
   \<and> fst (pthread_setspecific ex_tls_nomem 1 (key (statics (ensure_key 0 (boot AST_THREADSTORAGE)) 0))
            (Block 7) (rt (ensure_key 0 (boot AST_THREADSTORAGE)))) = ENOMEM
   \<and> fst (ast_threadstorage_get ex_tls_nomem 1 0 64 (boot AST_THREADSTORAGE)) = Block 7
   \<and> heap (mem (snd (ast_threadstorage_get ex_tls_nomem 1 0 64 (boot AST_THREADSTORAGE))))
       = [7 \<mapsto> replicate 64 0]
   \<and> slot_lookup 1 0 (snd (ast_threadstorage_get ex_tls_nomem 1 0 64 (boot AST_THREADSTORAGE))) = NULL"
proof -
  have miss: "slot_lookup 1 0 (boot AST_THREADSTORAGE) = NULL"
    by (simp add: model_defs Let_def)
  have alloc: "allocate ex_tls_nomem (heap (mem (boot AST_THREADSTORAGE))) 64 = Some 7"
    by (simp add: model_defs)
  have init: "case custom_init (statics (boot AST_THREADSTORAGE) 0) of
                None \<Rightarrow> True
              | Some f \<Rightarrow> fst (f (Block 7) ((heap (mem (boot AST_THREADSTORAGE)))(7 \<mapsto> replicate 64 0))) = 0"
    by (simp add: model_defs)
  have nomem: "fst (pthread_setspecific ex_tls_nomem 1
                 (key (statics (ensure_key 0 (boot AST_THREADSTORAGE)) 0))
                 (Block 7) (rt (ensure_key 0 (boot AST_THREADSTORAGE)))) = ENOMEM"
    by (simp add: model_defs Let_def)
  have plain: "custom_init (statics (boot AST_THREADSTORAGE) 0) = None"
    by (simp add: model_defs)
  have h0: "heap (mem (boot AST_THREADSTORAGE)) = Map.empty"
    by (simp add: boot_def mem0_def)
  note run = get_ignores_setspecific_result [OF miss alloc init, of "''app.c''" "''handler''" 42]
  from run have ret: "fst (ast_threadstorage_get ex_tls_nomem 1 0 64 (boot AST_THREADSTORAGE)) = Block 7"
    by blast
  from run nomem have empty:
    "slot_lookup 1 0 (snd (ast_threadstorage_get ex_tls_nomem 1 0 64 (boot AST_THREADSTORAGE))) = NULL"
    by (simp add: ENOMEM_def)
  from run have kept:
    "heap (mem (snd (ast_threadstorage_get ex_tls_nomem 1 0 64 (boot AST_THREADSTORAGE))))
       = [7 \<mapsto> replicate 64 0]"
    by (simp add: Let_def plain h0 on_mem_def on_heap_def)
  show ?thesis
    using miss alloc nomem ret empty kept by simp
qed

end
